theory Spec2Isabelle
  imports Complex_Main "HOL-Library.AList"
begin

section \<open>Data model\<close>

text \<open>
  The embedding follows \<^verbatim>\<open>src/hk_stock_analysis_docker.py\<close> (the loader
  \<^verbatim>\<open>load_and_process_portfolio\<close> and the reconstructor
  \<^verbatim>\<open>calculate_performance_from_entries\<close>) and the loader of
  \<^verbatim>\<open>src/hk_stock_analysis_server.py\<close>.

  Python floats are idealised as \<^typ>\<open>real\<close>: rounding, infinities and NaN are
  not modelled. Dates (pandas Timestamps) are integers, ordered as the Timestamps are.
  A division is \<open>py_div\<close>, which raises \<open>ZeroDivisionError\<close> on a zero divisor
  as Python's float division does; every raise of the source is an \<open>Inl\<close> value.
\<close>

type_synonym date = int

datatype py_error = ZeroDivisionError | NameError

definition py_div :: "real \<Rightarrow> real \<Rightarrow> py_error + real" where
  "py_div a b = (if b = 0 then Inl ZeroDivisionError else Inr (a / b))"

text \<open>One row of the \<^verbatim>\<open>all_transactions\<close> frame (lines 100-105 of the docker script).\<close>

record transaction =
  Date :: date
  Type :: string
  Transacted_Units :: real
  Transacted_Price :: real

text \<open>
  \<^verbatim>\<open>DataFrame.sort_values('Date')\<close>: rows ordered by date, rows of equal date kept in
  their frame order, as the spec reads it (a stable sort; pandas' default sort kind does
  not promise the order of rows of equal date on long frames).
\<close>

definition sort_values :: "transaction list \<Rightarrow> transaction list" where
  "sort_values df = sort_key Date df"

section \<open>Transaction replay\<close>

text \<open>
  The body of the replay loops, lines 208-219 and again lines 253-264: the position is the
  pair (cost, units).
\<close>

fun replay_step :: "real \<times> real \<Rightarrow> transaction \<Rightarrow> py_error + real \<times> real" where
  "replay_step (temp_cost, temp_units) tx =
     (if Type tx = ''Buy'' then
        Inr (temp_cost + Transacted_Units tx * Transacted_Price tx,
             temp_units + Transacted_Units tx)
      else if Type tx = ''Sell'' then
        (if temp_units > 0 then
           (case py_div temp_cost temp_units of
              Inl e \<Rightarrow> Inl e
            | Inr cost_per_unit \<Rightarrow>
                Inr (temp_cost - cost_per_unit * Transacted_Units tx,
                     temp_units - Transacted_Units tx))
         else Inr (temp_cost, temp_units))
      else Inr (temp_cost, temp_units))"

fun replay :: "real \<times> real \<Rightarrow> transaction list \<Rightarrow> py_error + real \<times> real" where
  "replay s [] = Inr s"
| "replay s (tx # txs) =
     (case replay_step s tx of Inl e \<Rightarrow> Inl e | Inr s' \<Rightarrow> replay s' txs)"

text \<open>
  A transaction list stays within the holdings when no Sell asks for more units than are
  held immediately before it.
\<close>

fun within_holdings :: "real \<times> real \<Rightarrow> transaction list \<Rightarrow> bool" where
  "within_holdings s [] = True"
| "within_holdings s (tx # txs) =
     ((Type tx = ''Sell'' \<longrightarrow> Transacted_Units tx \<le> snd s) \<and>
      (case replay_step s tx of Inl e \<Rightarrow> False | Inr s' \<Rightarrow> within_holdings s' txs))"

definition Buy :: "date \<Rightarrow> real \<Rightarrow> real \<Rightarrow> transaction" where
  "Buy d q p = \<lparr>Date = d, Type = ''Buy'', Transacted_Units = q, Transacted_Price = p\<rparr>"

definition Sell :: "date \<Rightarrow> real \<Rightarrow> real \<Rightarrow> transaction" where
  "Sell d q p = \<lparr>Date = d, Type = ''Sell'', Transacted_Units = q, Transacted_Price = p\<rparr>"

text \<open>Lines 266 and 270-273: the two guarded divisions of the final figures.\<close>

definition weighted_avg_cost_of :: "real \<times> real \<Rightarrow> py_error + real" where
  "weighted_avg_cost_of s =
     (case s of (running_cost, running_units) \<Rightarrow>
        if running_units > 0 then py_div running_cost running_units else Inr 0)"

definition current_pct_change_of :: "real \<Rightarrow> real \<Rightarrow> py_error + real" where
  "current_pct_change_of current_price weighted_avg_cost =
     (if weighted_avg_cost > 0 then
        (case py_div (current_price - weighted_avg_cost) weighted_avg_cost of
           Inl e \<Rightarrow> Inl e
         | Inr q \<Rightarrow> Inr (q * 100))
      else Inr 0)"

section \<open>Return trajectory\<close>

text \<open>Lines 227-230: the cap on the return of one date.\<close>

definition clamp_return :: "real \<Rightarrow> real" where
  "clamp_return current_return =
     (if current_return > 1000 then 1000
      else if current_return < - 100 then - 100
      else current_return)"

text \<open>
  Lines 197-237, the loop over \<^verbatim>\<open>entry_prices.items()\<close>. The source appends to
  \<^verbatim>\<open>performance_series\<close> and \<^verbatim>\<open>dates_series\<close> in lockstep and zips them into
  one Series afterwards; the model keeps the list of (date, return) pairs. The position is
  replayed from zero for each date. The division by \<^verbatim>\<open>current_avg_cost\<close> on line
  224 has no guard of its own.
\<close>

fun trajectory_loop ::
  "transaction list \<Rightarrow> (date \<times> real) list \<Rightarrow> (date \<times> real) list \<Rightarrow>
   py_error + (date \<times> real) list" where
  "trajectory_loop all_tx performance_series [] = Inr performance_series"
| "trajectory_loop all_tx performance_series ((price_date, market_price) # rest) =
     (case replay (0, 0) (sort_values (filter (\<lambda>t. Date t \<le> price_date) all_tx)) of
        Inl e \<Rightarrow> Inl e
      | Inr (temp_cost, temp_units) \<Rightarrow>
          if temp_units > 0 then
            (case py_div temp_cost temp_units of
               Inl e \<Rightarrow> Inl e
             | Inr current_avg_cost \<Rightarrow>
                 (case py_div (market_price - current_avg_cost) current_avg_cost of
                    Inl e \<Rightarrow> Inl e
                  | Inr q \<Rightarrow>
                      trajectory_loop all_tx
                        (performance_series @ [(price_date, clamp_return (q * 100))]) rest))
          else if length performance_series > 0 then
            trajectory_loop all_tx (performance_series @ [(price_date, 0)]) rest
          else trajectory_loop all_tx performance_series rest)"

text \<open>Lines 241-243: the Series with its first value overwritten by 0.0.\<close>

fun force_first_zero :: "(date \<times> real) list \<Rightarrow> (date \<times> real) list" where
  "force_first_zero [] = []"
| "force_first_zero ((d, r) # ps) = (d, 0) # ps"

section \<open>The reconstructor\<close>

text \<open>
  The value of one instrument in the loader's mapping. The loader of the server script
  stores a transaction row of another shape, so the row type is a parameter.
\<close>

record 'tx stock_info =
  buy_transactions :: "'tx list"
  sell_transactions :: "'tx list"
  all_transactions :: "'tx list"
  current_units :: real
  total_cost :: real

record performance_record =
  entry_price :: real
  current_price :: real
  pct_change :: real
  units :: real
  entry_date :: date
  historical_pct :: "(date \<times> real) list"
  dates :: "date list"
  unrealized_pnl :: real

text \<open>
  \<^verbatim>\<open>price_data\<close>: a frame indexed by date with one column per instrument; a
  column is read as its list of (date, price) cells, \<open>None\<close> for a NaN cell.
\<close>

type_synonym price_data = "string \<rightharpoonup> (date \<times> real option) list"

fun dropna :: "(date \<times> real option) list \<Rightarrow> (date \<times> real) list" where
  "dropna [] = []"
| "dropna ((d, None) # cells) = dropna cells"
| "dropna ((d, Some p) # cells) = (d, p) # dropna cells"

text \<open>
  What the loop over the instruments carries from one iteration to the next: the result
  mapping \<^verbatim>\<open>performance_data\<close> and the function-local variable
  \<^verbatim>\<open>pct_changes\<close>, which is unbound (\<open>None\<close>) until line 241 first assigns it and
  is never reset.
\<close>

type_synonym loop_state = "(string \<rightharpoonup> performance_record) \<times> (date \<times> real) list option"

text \<open>
  Lines 239-284 for one instrument, once \<^verbatim>\<open>entry_prices\<close> is known to be
  non-empty. Reading the unbound \<^verbatim>\<open>pct_changes\<close> on line 281 raises
  UnboundLocalError, a subclass of NameError.
\<close>

definition build_record ::
  "loop_state \<Rightarrow> string \<Rightarrow> transaction list \<Rightarrow> (date \<times> real) list \<Rightarrow> date \<Rightarrow>
   (date \<times> real) list \<Rightarrow> py_error + loop_state" where
  "build_record st stock_code all_tx stock_prices first_entry_date performance_series =
     (case st of (performance_data, pct_changes) \<Rightarrow>
      let pct_changes' =
            (if length performance_series > 0 then Some (force_first_zero performance_series)
             else pct_changes)
      in
      case replay (0, 0) (sort_values all_tx) of
        Inl e \<Rightarrow> Inl e
      | Inr (running_cost, running_units) \<Rightarrow>
          (case weighted_avg_cost_of (running_cost, running_units) of
             Inl e \<Rightarrow> Inl e
           | Inr weighted_avg_cost \<Rightarrow>
               let current_price = snd (last stock_prices) in
               (case current_pct_change_of current_price weighted_avg_cost of
                  Inl e \<Rightarrow> Inl e
                | Inr current_pct_change \<Rightarrow>
                    (case pct_changes' of
                       None \<Rightarrow> Inl NameError
                     | Some series \<Rightarrow>
                         Inr (performance_data(stock_code \<mapsto>
                                \<lparr>entry_price = weighted_avg_cost,
                                 current_price = current_price,
                                 pct_change = current_pct_change,
                                 units = running_units,
                                 entry_date = first_entry_date,
                                 historical_pct = series,
                                 dates = map fst series,
                                 unrealized_pnl =
                                   (current_price - weighted_avg_cost) * running_units\<rparr>),
                              pct_changes')))))"

text \<open>Lines 179-192 and the call of the rest: the body of the loop over the instruments.\<close>

definition process_stock ::
  "price_data \<Rightarrow> loop_state \<Rightarrow> string \<times> transaction stock_info \<Rightarrow> py_error + loop_state" where
  "process_stock price_data st item =
     (case item of (stock_code, transaction_info) \<Rightarrow>
      case price_data stock_code of
        None \<Rightarrow> Inr st
      | Some column \<Rightarrow>
          let stock_prices = dropna column;
              all_tx = all_transactions transaction_info
          in
          if length stock_prices > 0 \<and> length all_tx > 0 then
            (case filter (\<lambda>t. Type t = ''Buy'') all_tx of
               [] \<Rightarrow> Inr st
             | first_buy # other_buys \<Rightarrow>
                 let first_entry_date = Date first_buy;
                     entry_prices = filter (\<lambda>(d, p). d \<ge> first_entry_date) stock_prices
                 in
                 if length entry_prices > 0 then
                   (case trajectory_loop all_tx [] entry_prices of
                      Inl e \<Rightarrow> Inl e
                    | Inr performance_series \<Rightarrow>
                        build_record st stock_code all_tx stock_prices first_entry_date
                          performance_series)
                 else Inr st)
          else Inr st)"

fun process_all ::
  "price_data \<Rightarrow> loop_state \<Rightarrow> (string \<times> transaction stock_info) list \<Rightarrow>
   py_error + loop_state" where
  "process_all price_data st [] = Inr st"
| "process_all price_data st (item # items) =
     (case process_stock price_data st item of
        Inl e \<Rightarrow> Inl e
      | Inr st' \<Rightarrow> process_all price_data st' items)"

text \<open>
  \<^verbatim>\<open>stock_transactions\<close> is a dict, iterated in insertion order: an association
  list.
\<close>

definition calculate_performance_from_entries ::
  "(string \<times> transaction stock_info) list \<Rightarrow> price_data \<Rightarrow>
   py_error + (string \<rightharpoonup> performance_record)" where
  "calculate_performance_from_entries stock_transactions price_data =
     (case process_all price_data (Map.empty, None) stock_transactions of
        Inl e \<Rightarrow> Inl e
      | Inr (performance_data, pct_changes) \<Rightarrow> Inr performance_data)"

section \<open>The transaction ledger loaders\<close>
















section \<open>Example inputs\<close>

text \<open>
  Scenario A of the spec: 100 units bought at 10 on day 1, prices 10, 11, 9, 12 on days
  1 to 4.
\<close>

definition scenario_A_info :: "transaction stock_info" where
  "scenario_A_info =
     \<lparr>buy_transactions = [Buy 1 100 10], sell_transactions = [],
      all_transactions = [Buy 1 100 10], current_units = 100, total_cost = 1000\<rparr>"

definition scenario_A_prices :: price_data where
  "scenario_A_prices = [''0001'' \<mapsto> [(1, Some 10), (2, Some 11), (3, Some 9), (4, Some 12)]]"

definition scenario_A_record :: performance_record where
  "scenario_A_record =
     \<lparr>entry_price = 10, current_price = 12, pct_change = 20, units = 100, entry_date = 1,
      historical_pct = [(1, 0), (2, 10), (3, - 10), (4, 20)], dates = [1, 2, 3, 4],
      unrealized_pnl = 200\<rparr>"

text \<open>
  A price that rises twentyfold: 100 units bought at 1 on day 1, prices 1 and 20 on days 1
  and 2.
\<close>

definition spike_info :: "transaction stock_info" where
  "spike_info =
     \<lparr>buy_transactions = [Buy 1 100 1], sell_transactions = [],
      all_transactions = [Buy 1 100 1], current_units = 100, total_cost = 100\<rparr>"

definition spike_prices :: price_data where
  "spike_prices = [''0001'' \<mapsto> [(1, Some 1), (2, Some 20)]]"

definition spike_record :: performance_record where
  "spike_record =
     \<lparr>entry_price = 1, current_price = 20, pct_change = 1900, units = 100, entry_date = 1,
      historical_pct = [(1, 0), (2, 1000)], dates = [1, 2], unrealized_pnl = 1900\<rparr>"

text \<open>
  Rows that are not in date order, as the loader keeps them: a Buy on day 5 precedes a Buy
  on day 2. Prices 8, 8, 9, 10, 10, 11 on days 1 to 6.
\<close>

definition unordered_info :: "transaction stock_info" where
  "unordered_info =
     \<lparr>buy_transactions = [Buy 5 100 10, Buy 2 50 8], sell_transactions = [],
      all_transactions = [Buy 5 100 10, Buy 2 50 8], current_units = 150, total_cost = 1400\<rparr>"

definition unordered_prices :: price_data where
  "unordered_prices =
     [''0001'' \<mapsto> [(1, Some 8), (2, Some 8), (3, Some 9), (4, Some 10), (5, Some 10),
                     (6, Some 11)]]"

definition unordered_record :: performance_record where
  "unordered_record =
     \<lparr>entry_price = 28 / 3, current_price = 11, pct_change = 125 / 7, units = 150,
      entry_date = 5, historical_pct = [(5, 0), (6, 125 / 7)], dates = [5, 6],
      unrealized_pnl = 250\<rparr>"

text \<open>
  An instrument without units on any price date: a Buy row of 0 units on day 1 (a quantity
  cell that did not convert), the real Buy on day 10, prices 10 and 11 on days 1 and 2.
\<close>

definition idle_info :: "transaction stock_info" where
  "idle_info =
     \<lparr>buy_transactions = [Buy 10 100 10], sell_transactions = [],
      all_transactions = [Buy 1 0 10, Buy 10 100 10], current_units = 100,
      total_cost = 1000\<rparr>"

definition idle_prices :: "(date \<times> real option) list" where
  "idle_prices = [(1, Some 10), (2, Some 11)]"

text \<open>
  The record that a run over scenario A followed by the idle instrument stores for the idle
  instrument: its own cost and price figures with the trajectory of scenario A.
\<close>

definition idle_record :: performance_record where
  "idle_record =
     \<lparr>entry_price = 10, current_price = 11, pct_change = 10, units = 100, entry_date = 1,
      historical_pct = [(1, 0), (2, 10), (3, - 10), (4, 20)], dates = [1, 2, 3, 4],
      unrealized_pnl = 100\<rparr>"


section \<open>Properties of the replay\<close>

lemma replay_step_total: "\<exists>s'. replay_step s tx = Inr s'"
  by (cases s) (simp add: py_div_def)

lemma replay_total: "\<exists>s'. replay s txs = Inr s'"
proof (induction txs arbitrary: s)
  case Nil
  show ?case by simp
next
  case (Cons tx txs)
  obtain s1 where "replay_step s tx = Inr s1"
    using replay_step_total by blast
  with Cons.IH [of s1] show ?case by simp
qed

lemma replay_step_nonneg:
  assumes "0 \<le> c" and "0 \<le> u"
    and "0 \<le> Transacted_Units tx" and "0 \<le> Transacted_Price tx"
    and "Type tx = ''Sell'' \<longrightarrow> Transacted_Units tx \<le> u"
    and "replay_step (c, u) tx = Inr (c', u')"
  shows "0 \<le> c' \<and> 0 \<le> u'"
proof (cases "Type tx = ''Buy''")
  case True
  with assms show ?thesis by auto
next
  case notbuy: False
  show ?thesis
  proof (cases "Type tx = ''Sell'' \<and> 0 < u")
    case True
    then have q: "Transacted_Units tx \<le> u" and u: "0 < u"
      using assms(5) by auto
    from True notbuy assms(6) u
    have c': "c' = c - c / u * Transacted_Units tx" and u': "u' = u - Transacted_Units tx"
      by (auto simp: py_div_def)
    have "c / u * Transacted_Units tx \<le> c / u * u"
      using q assms(1) u by (intro mult_left_mono) auto
    also have "\<dots> = c" using u by simp
    finally have "0 \<le> c'" using c' by simp
    moreover have "0 \<le> u'" using u' q by simp
    ultimately show ?thesis by simp
  next
    case False
    with notbuy assms show ?thesis by (auto split: if_splits)
  qed
qed

lemma replay_prefix_nonneg:
  assumes "\<forall>tx \<in> set txs. 0 \<le> Transacted_Units tx \<and> 0 \<le> Transacted_Price tx"
    and "within_holdings (c, u) txs" and "0 \<le> c" and "0 \<le> u"
    and "replay (c, u) (take n txs) = Inr (c', u')"
  shows "0 \<le> c' \<and> 0 \<le> u'"
  using assms
proof (induction txs arbitrary: c u n)
  case Nil
  then show ?case by simp
next
  case (Cons tx txs)
  show ?case
  proof (cases n)
    case 0
    with Cons.prems show ?thesis by simp
  next
    case (Suc m)
    obtain c1 u1 where step: "replay_step (c, u) tx = Inr (c1, u1)"
      using replay_step_total [of "(c, u)" tx] by (metis surj_pair)
    have nn: "0 \<le> c1 \<and> 0 \<le> u1"
      using replay_step_nonneg [OF Cons.prems(3) Cons.prems(4) _ _ _ step] Cons.prems(1,2)
      by simp
    have wh: "within_holdings (c1, u1) txs"
      using Cons.prems(2) step by simp
    have rp: "replay (c1, u1) (take m txs) = Inr (c', u')"
      using Cons.prems(5) Suc step by simp
    show ?thesis
      using Cons.IH [OF _ wh _ _ rp] Cons.prems(1) nn by simp
  qed
qed

lemma trajectory_loop_no_position:
  assumes "replay (0, 0) (sort_values (filter (\<lambda>t. Date t \<le> d) all_tx)) = Inr (c, u)"
    and "u \<le> 0"
  shows "trajectory_loop all_tx series ((d, p) # rest) =
         trajectory_loop all_tx (if series \<noteq> [] then series @ [(d, 0)] else series) rest"
  using assms by simp

section \<open>Claims about the replay\<close>

text \<open>
  C1 (as amended). The spec asks that cost and units stay non-negative after every replayed
  transaction, also when a Sell asks for more units than are held. The replay has no
  clamp: what holds is that no replay raises a division error, on any transaction list,
  and that cost and units are non-negative after every processed transaction (every prefix
  of the replayed list) when quantities and prices are non-negative and every Sell stays
  within the units held immediately before it.
\<close>

theorem replay_cost_units_nonneg:
  assumes "\<forall>tx \<in> set txs. 0 \<le> Transacted_Units tx \<and> 0 \<le> Transacted_Price tx"
    and "within_holdings (0, 0) txs"
  shows "(\<exists>s. replay (0, 0) any_txs = Inr s) \<and>
         (\<exists>c u. replay (0, 0) (take n txs) = Inr (c, u) \<and> 0 \<le> c \<and> 0 \<le> u)"
proof -
  obtain c u where r: "replay (0, 0) (take n txs) = Inr (c, u)"
    using replay_total [of "(0, 0)" "take n txs"] by (metis surj_pair)
  have "0 \<le> c \<and> 0 \<le> u"
    using replay_prefix_nonneg [OF assms(1) assms(2) _ _ r] by simp
  with r replay_total [of "(0, 0)" any_txs] show ?thesis by blast
qed

theorem replay_cost_units_nonneg_witness:
  "(\<exists>s. replay (0, 0) [Buy 1 100 10, Sell 3 150 12] = Inr s) \<and>
   (\<exists>c u. replay (0, 0) (take 2 [Buy 1 100 10, Sell 3 50 12]) = Inr (c, u) \<and> 0 \<le> c \<and> 0 \<le> u)"
proof -
  have a: "\<forall>tx \<in> set [Buy 1 100 10, Sell 3 50 12].
             0 \<le> Transacted_Units tx \<and> 0 \<le> Transacted_Price tx"
    by (simp add: Buy_def Sell_def)
  have b: "within_holdings (0, 0) [Buy 1 100 10, Sell 3 50 12]"
    by (simp add: Buy_def Sell_def py_div_def)
  show ?thesis
    using replay_cost_units_nonneg [OF a b, of "[Buy 1 100 10, Sell 3 150 12]" 2] .
qed

text \<open>
  C1 as the spec states it fails: a Sell of 150 units against a holding of 100 units bought
  at 10 leaves a cost of -500 and -50 units.
\<close>

theorem oversell_goes_negative:
  "replay (0, 0) [Buy 1 100 10, Sell 3 150 12] = Inr (- 500, - 50)"
  by (simp add: Buy_def Sell_def py_div_def)

text \<open>
  C2. A Sell of q units, 0 < q < units, from a position with units > 0 and cost >= 0
  multiplies cost and units by the same factor (units - q) / units, so that the average
  cost, cost / units, is unchanged.
\<close>

theorem proportional_sell:
  assumes "0 < u" and "0 \<le> c" and "0 < q" and "q < u"
    and "Type tx = ''Sell''" and "Transacted_Units tx = q"
  shows "replay_step (c, u) tx = Inr (c * ((u - q) / u), u * ((u - q) / u)) \<and>
         u * ((u - q) / u) = u - q \<and>
         (c * ((u - q) / u)) / (u * ((u - q) / u)) = c / u"
proof -
  have f: "(u - q) / u \<noteq> 0" using assms by simp
  have "c - c / u * q = c * ((u - q) / u)"
    using assms(1) by (simp add: field_simps)
  moreover have "u - q = u * ((u - q) / u)"
    using assms(1) by simp
  ultimately have "replay_step (c, u) tx = Inr (c * ((u - q) / u), u * ((u - q) / u))"
    using assms by (simp add: py_div_def)
  moreover have "(c * ((u - q) / u)) / (u * ((u - q) / u)) = c / u"
    using f by simp
  moreover have "u * ((u - q) / u) = u - q"
    using assms(1) by simp
  ultimately show ?thesis by blast
qed

text \<open>
  The instance of the spec: selling 50 of 100 units with cost basis 1000 leaves 50 units at
  cost 500, the average cost still 10.
\<close>

theorem proportional_sell_witness:
  "replay_step (1000, 100) (Sell 3 50 12) = Inr (500, 50) \<and> (500::real) / 50 = 1000 / 100"
  using proportional_sell [of 100 1000 50 "Sell 3 50 12"] by (simp add: Sell_def)

text \<open>
  C8. The divisions that compute an average cost or the current percentage change never
  raise: one replay step and a whole replay always return a position, the weighted average
  cost is cost / units when units > 0 and 0 otherwise, the current percentage change is
  the return formula when the weighted average cost is > 0 and 0 otherwise, and a price
  date on which the replayed units are not positive divides nothing (it adds the point 0.0
  when a point was recorded before, and no point otherwise).
\<close>

theorem guarded_divisions_never_raise:
  "(\<exists>s'. replay_step s tx = Inr s') \<and>
   (\<exists>s'. replay s txs = Inr s') \<and>
   weighted_avg_cost_of (c, u) = Inr (if u > 0 then c / u else 0) \<and>
   current_pct_change_of p w = Inr (if w > 0 then (p - w) / w * 100 else 0) \<and>
   (replay (0, 0) (sort_values (filter (\<lambda>t. Date t \<le> d) all_tx)) = Inr (c', u') \<and> u' \<le> 0 \<longrightarrow>
      trajectory_loop all_tx series ((d, m) # rest) =
      trajectory_loop all_tx (if series \<noteq> [] then series @ [(d, 0)] else series) rest)"
proof -
  have "weighted_avg_cost_of (c, u) = Inr (if u > 0 then c / u else 0)"
    by (simp add: weighted_avg_cost_of_def py_div_def)
  moreover have "current_pct_change_of p w = Inr (if w > 0 then (p - w) / w * 100 else 0)"
    by (simp add: current_pct_change_of_def py_div_def)
  ultimately show ?thesis
    using replay_step_total [of s tx] replay_total [of s txs]
      trajectory_loop_no_position [of d all_tx c' u' series m rest]
    by blast
qed

theorem guarded_divisions_never_raise_witness:
  "(\<exists>s'. replay_step (1000, 0) (Sell 3 50 12) = Inr s') \<and>
   (\<exists>s'. replay (1000, 0) [Sell 1 50 12, Buy 2 0 0] = Inr s') \<and>
   weighted_avg_cost_of (1000, 0) = Inr 0 \<and>
   current_pct_change_of 12 0 = Inr 0 \<and>
   trajectory_loop [Sell 1 50 12] [] [(1, 12)] = Inr []"
proof -
  have r: "replay (0, 0) (sort_values (filter (\<lambda>t. Date t \<le> 1) [Sell 1 50 12])) = Inr (0, 0)"
    by (simp add: Sell_def sort_values_def)
  show ?thesis
    using guarded_divisions_never_raise
      [of "(1000, 0)" "Sell 3 50 12" "[Sell 1 50 12, Buy 2 0 0]" 1000 0 12 0
          1 "[Sell 1 50 12]" 0 0 "[]" 12 "[]"] r
    by simp
qed

section \<open>Properties of the reconstructor\<close>

lemma build_record_Inr:
  assumes "build_record (perf, pc) code all_tx stock_prices fd ps = Inr st'"
  shows "\<exists>c u series.
           replay (0, 0) (sort_values all_tx) = Inr (c, u) \<and>
           (if ps \<noteq> [] then Some (force_first_zero ps) else pc) = Some series \<and>
           st' = (perf(code \<mapsto>
                    \<lparr>entry_price = (if u > 0 then c / u else 0),
                     current_price = snd (last stock_prices),
                     pct_change =
                       (if (if u > 0 then c / u else 0) > 0
                        then (snd (last stock_prices) - (if u > 0 then c / u else 0)) /
                             (if u > 0 then c / u else 0) * 100
                        else 0),
                     units = u,
                     entry_date = fd,
                     historical_pct = series,
                     dates = map fst series,
                     unrealized_pnl =
                       (snd (last stock_prices) - (if u > 0 then c / u else 0)) * u\<rparr>),
                  Some series)"
proof -
  obtain c u where r: "replay (0, 0) (sort_values all_tx) = Inr (c, u)"
    using replay_total [of "(0, 0)" "sort_values all_tx"] by (metis surj_pair)
  define w where "w = (if u > 0 then c / u else 0)"
  define pc' where "pc' = (if ps \<noteq> [] then Some (force_first_zero ps) else pc)"
  have wa: "weighted_avg_cost_of (c, u) = Inr w"
    by (simp add: weighted_avg_cost_of_def py_div_def w_def)
  have p: "current_pct_change_of (snd (last stock_prices)) w =
           Inr (if w > 0 then (snd (last stock_prices) - w) / w * 100 else 0)"
    by (simp add: current_pct_change_of_def py_div_def)
  have unf: "build_record (perf, pc) code all_tx stock_prices fd ps =
        (case pc' of None \<Rightarrow> Inl NameError
         | Some series \<Rightarrow>
             Inr (perf(code \<mapsto>
                    \<lparr>entry_price = w,
                     current_price = snd (last stock_prices),
                     pct_change = (if w > 0 then (snd (last stock_prices) - w) / w * 100 else 0),
                     units = u,
                     entry_date = fd,
                     historical_pct = series,
                     dates = map fst series,
                     unrealized_pnl = (snd (last stock_prices) - w) * u\<rparr>),
                  pc'))"
    unfolding build_record_def Let_def
    by (simp only: prod.case r sum.case wa p pc'_def length_greater_0_conv)
  show ?thesis
  proof (cases pc')
    case None
    with assms unf show ?thesis by simp
  next
    case (Some series)
    with assms unf have "st' = (perf(code \<mapsto>
                    \<lparr>entry_price = w,
                     current_price = snd (last stock_prices),
                     pct_change = (if w > 0 then (snd (last stock_prices) - w) / w * 100 else 0),
                     units = u,
                     entry_date = fd,
                     historical_pct = series,
                     dates = map fst series,
                     unrealized_pnl = (snd (last stock_prices) - w) * u\<rparr>),
                  Some series)" by simp
    with r Some show ?thesis unfolding w_def pc'_def by blast
  qed
qed


lemma build_record_fields:
  assumes "build_record (perf, pc) code all_tx stock_prices fd ps = Inr st'"
  shows "\<exists>c u series r.
           replay (0, 0) (sort_values all_tx) = Inr (c, u) \<and>
           (if ps \<noteq> [] then Some (force_first_zero ps) else pc) = Some series \<and>
           st' = (perf(code \<mapsto> r), Some series) \<and>
           entry_price r = (if u > 0 then c / u else 0) \<and>
           current_price r = snd (last stock_prices) \<and>
           pct_change r =
             (if entry_price r > 0
              then (current_price r - entry_price r) / entry_price r * 100 else 0) \<and>
           units r = u \<and> entry_date r = fd \<and> historical_pct r = series \<and>
           dates r = map fst series \<and>
           unrealized_pnl r = (current_price r - entry_price r) * units r"
proof -
  from build_record_Inr [OF assms] obtain c u series where
    a: "replay (0, 0) (sort_values all_tx) = Inr (c, u)"
    and b: "(if ps \<noteq> [] then Some (force_first_zero ps) else pc) = Some series"
    and c: "st' = (perf(code \<mapsto>
                    \<lparr>entry_price = (if u > 0 then c / u else 0),
                     current_price = snd (last stock_prices),
                     pct_change =
                       (if (if u > 0 then c / u else 0) > 0
                        then (snd (last stock_prices) - (if u > 0 then c / u else 0)) /
                             (if u > 0 then c / u else 0) * 100
                        else 0),
                     units = u,
                     entry_date = fd,
                     historical_pct = series,
                     dates = map fst series,
                     unrealized_pnl =
                       (snd (last stock_prices) - (if u > 0 then c / u else 0)) * u\<rparr>),
                  Some series)"
    by blast
  show ?thesis
    apply (rule exI [of _ c], rule exI [of _ u], rule exI [of _ series])
    apply (rule exI [of _ "the (fst st' code)"])
    using a b c by simp
qed

lemma process_stock_Inr:
  assumes "process_stock pd st (code, info) = Inr st'"
  shows "st' = st \<or>
         (\<exists>column first_buy other_buys ps.
            pd code = Some column \<and> dropna column \<noteq> [] \<and>
            filter (\<lambda>t. Type t = ''Buy'') (all_transactions info) = first_buy # other_buys \<and>
            filter (\<lambda>(d, p). d \<ge> Date first_buy) (dropna column) \<noteq> [] \<and>
            trajectory_loop (all_transactions info) []
              (filter (\<lambda>(d, p). d \<ge> Date first_buy) (dropna column)) = Inr ps \<and>
            build_record st code (all_transactions info) (dropna column) (Date first_buy) ps
              = Inr st')"
proof (cases "pd code")
  case None
  with assms show ?thesis by (simp add: process_stock_def)
next
  case (Some column)
  show ?thesis
  proof (cases "filter (\<lambda>t. Type t = ''Buy'') (all_transactions info)")
    case Nil
    with assms Some show ?thesis by (simp add: process_stock_def Let_def split: if_splits)
  next
    case (Cons first_buy other_buys)
    show ?thesis
    proof (cases "trajectory_loop (all_transactions info) []
              (filter (\<lambda>(d, p). d \<ge> Date first_buy) (dropna column))")
      case (Inl e)
      with assms Some Cons show ?thesis
        by (simp add: process_stock_def Let_def split: if_splits)
    next
      case (Inr ps)
      with assms Some Cons show ?thesis
        by (simp add: process_stock_def Let_def split: if_splits)
    qed
  qed
qed



lemma force_first_zero_nonempty: "ps \<noteq> [] \<Longrightarrow> force_first_zero ps \<noteq> []"
  by (cases ps) auto

lemma force_first_zero_hd: "ps \<noteq> [] \<Longrightarrow> snd (hd (force_first_zero ps)) = 0"
  by (cases ps) auto


lemma process_all_invariant:
  assumes "process_all pd st items = Inr st'"
    and "I st"
    and "\<And>s item s'. I s \<Longrightarrow> item \<in> set items \<Longrightarrow> process_stock pd s item = Inr s' \<Longrightarrow> I s'"
  shows "I st'"
  using assms
proof (induction items arbitrary: st)
  case Nil
  then show ?case by simp
next
  case (Cons item items)
  from Cons.prems(1) obtain s1 where s1: "process_stock pd st item = Inr s1"
    and rest: "process_all pd s1 items = Inr st'"
    by (cases "process_stock pd st item") auto
  have "item \<in> set (item # items)" by simp
  from Cons.prems(3) [OF Cons.prems(2) this s1] have i1: "I s1" .
  show ?case
  proof (rule Cons.IH [OF rest i1])
    fix s item' s'
    assume "I s" and "item' \<in> set items" and "process_stock pd s item' = Inr s'"
    moreover from \<open>item' \<in> set items\<close> have "item' \<in> set (item # items)" by simp
    ultimately show "I s'" using Cons.prems(3) by blast
  qed
qed


text \<open>What every stored trajectory, and the carried one, satisfies.\<close>

lemma process_stock_series:
  assumes step: "process_stock pd (perf, pc) item = Inr (perf', pc')"
    and perf: "\<forall>k r. perf k = Some r \<longrightarrow> Q (historical_pct r)"
    and pc: "\<forall>t. pc = Some t \<longrightarrow> Q t"
    and Q: "\<And>all_tx prices ps. trajectory_loop all_tx [] prices = Inr ps \<Longrightarrow> ps \<noteq> [] \<Longrightarrow>
              Q (force_first_zero ps)"
  shows "(\<forall>k r. perf' k = Some r \<longrightarrow> Q (historical_pct r)) \<and> (\<forall>t. pc' = Some t \<longrightarrow> Q t)"
proof -
  obtain code info where item: "item = (code, info)" by (cases item)
  from process_stock_Inr [OF step [unfolded item]]
  show ?thesis
  proof (elim disjE exE conjE)
    assume "(perf', pc') = (perf, pc)"
    with perf pc show ?thesis by simp
  next
    fix column first_buy other_buys ps
    assume tl: "trajectory_loop (all_transactions info) []
              (filter (\<lambda>(d, p). d \<ge> Date first_buy) (dropna column)) = Inr ps"
      and br: "build_record (perf, pc) code (all_transactions info) (dropna column)
              (Date first_buy) ps = Inr (perf', pc')"
    from build_record_fields [OF br] obtain series r where
      s: "(if ps \<noteq> [] then Some (force_first_zero ps) else pc) = Some series"
      and st: "(perf', pc') = (perf(code \<mapsto> r), Some series)"
      and h: "historical_pct r = series"
      by blast
    have qs: "Q series"
    proof (cases "ps = []")
      case True
      with s pc show ?thesis by simp
    next
      case False
      with s have "series = force_first_zero ps" by simp
      with Q [OF tl False] show ?thesis by simp
    qed
    from st have p': "perf' = perf(code \<mapsto> r)" and c': "pc' = Some series" by simp_all
    have "\<forall>k r'. perf' k = Some r' \<longrightarrow> Q (historical_pct r')"
    proof (intro allI impI)
      fix k r'
      assume "perf' k = Some r'"
      then show "Q (historical_pct r')"
        unfolding p' using perf qs h by (cases "k = code") auto
    qed
    moreover have "\<forall>t. pc' = Some t \<longrightarrow> Q t"
      unfolding c' using qs by simp
    ultimately show ?thesis by (rule conjI)
  qed
qed

lemma calculate_performance_series:
  assumes "calculate_performance_from_entries stock_transactions pd = Inr perf"
    and "perf k = Some r"
    and Q: "\<And>all_tx prices ps. trajectory_loop all_tx [] prices = Inr ps \<Longrightarrow> ps \<noteq> [] \<Longrightarrow>
              Q (force_first_zero ps)"
  shows "Q (historical_pct r)"
proof -
  from assms(1) obtain pc where
    pa: "process_all pd (Map.empty, None) stock_transactions = Inr (perf, pc)"
    unfolding calculate_performance_from_entries_def
    by (cases "process_all pd (Map.empty, None) stock_transactions") auto
  define I where "I = (\<lambda>st :: loop_state.
      (\<forall>k r. fst st k = Some r \<longrightarrow> Q (historical_pct r)) \<and> (\<forall>t. snd st = Some t \<longrightarrow> Q t))"
  have "I (perf, pc)"
  proof (rule process_all_invariant [OF pa])
    show "I (Map.empty, None)" by (simp add: I_def)
  next
    fix s item s'
    assume i: "I s" and ps: "process_stock pd s item = Inr s'"
    obtain a b where s: "s = (a, b)" by (cases s)
    obtain a' b' where s': "s' = (a', b')" by (cases s')
    from i have 1: "\<forall>k r. a k = Some r \<longrightarrow> Q (historical_pct r)"
      and 2: "\<forall>t. b = Some t \<longrightarrow> Q t"
      unfolding I_def s by simp_all
    from process_stock_series [OF ps [unfolded s s'] 1 2 Q]
    show "I s'" unfolding I_def s' by simp
  qed
  then have "\<forall>k r. perf k = Some r \<longrightarrow> Q (historical_pct r)"
    unfolding I_def by simp
  with assms(2) show ?thesis by blast
qed

lemma process_stock_record:
  assumes step: "process_stock pd (perf, pc) (code, info) = Inr (perf', pc')"
    and perf: "\<forall>k r. perf k = Some r \<longrightarrow> R k r"
    and R: "\<And>column first_buy other_buys c u r.
              pd code = Some column \<Longrightarrow> dropna column \<noteq> [] \<Longrightarrow>
              filter (\<lambda>t. Type t = ''Buy'') (all_transactions info) = first_buy # other_buys \<Longrightarrow>
              replay (0, 0) (sort_values (all_transactions info)) = Inr (c, u) \<Longrightarrow>
              entry_price r = (if u > 0 then c / u else 0) \<Longrightarrow>
              current_price r = snd (last (dropna column)) \<Longrightarrow>
              pct_change r =
                (if entry_price r > 0
                 then (current_price r - entry_price r) / entry_price r * 100 else 0) \<Longrightarrow>
              units r = u \<Longrightarrow> entry_date r = Date first_buy \<Longrightarrow>
              unrealized_pnl r = (current_price r - entry_price r) * units r \<Longrightarrow>
              R code r"
  shows "\<forall>k r. perf' k = Some r \<longrightarrow> R k r"
proof -
  from process_stock_Inr [OF step]
  show ?thesis
  proof (elim disjE exE conjE)
    assume "(perf', pc') = (perf, pc)"
    with perf show ?thesis by simp
  next
    fix column first_buy other_buys ps
    assume col: "pd code = Some column" and ne: "dropna column \<noteq> []"
      and fb: "filter (\<lambda>t. Type t = ''Buy'') (all_transactions info) = first_buy # other_buys"
      and br: "build_record (perf, pc) code (all_transactions info) (dropna column)
              (Date first_buy) ps = Inr (perf', pc')"
    from build_record_fields [OF br] obtain c u series r where
      rp: "replay (0, 0) (sort_values (all_transactions info)) = Inr (c, u)"
      and st: "(perf', pc') = (perf(code \<mapsto> r), Some series)"
      and f1: "entry_price r = (if u > 0 then c / u else 0)"
      and f2: "current_price r = snd (last (dropna column))"
      and f3: "pct_change r =
             (if entry_price r > 0
              then (current_price r - entry_price r) / entry_price r * 100 else 0)"
      and f4: "units r = u" and f5: "entry_date r = Date first_buy"
      and f6: "unrealized_pnl r = (current_price r - entry_price r) * units r"
      by blast
    have rr: "R code r" by (rule R [OF col ne fb rp f1 f2 f3 f4 f5 f6])
    from st have p': "perf' = perf(code \<mapsto> r)" by simp
    show ?thesis
    proof (intro allI impI)
      fix k r'
      assume "perf' k = Some r'"
      then show "R k r'"
        unfolding p' using perf rr by (cases "k = code") auto
    qed
  qed
qed

lemma calculate_performance_record:
  assumes run: "calculate_performance_from_entries stock_transactions pd = Inr perf"
    and look: "perf k = Some r"
    and R: "\<And>code info column first_buy other_buys c u r.
              (code, info) \<in> set stock_transactions \<Longrightarrow>
              pd code = Some column \<Longrightarrow> dropna column \<noteq> [] \<Longrightarrow>
              filter (\<lambda>t. Type t = ''Buy'') (all_transactions info) = first_buy # other_buys \<Longrightarrow>
              replay (0, 0) (sort_values (all_transactions info)) = Inr (c, u) \<Longrightarrow>
              entry_price r = (if u > 0 then c / u else 0) \<Longrightarrow>
              current_price r = snd (last (dropna column)) \<Longrightarrow>
              pct_change r =
                (if entry_price r > 0
                 then (current_price r - entry_price r) / entry_price r * 100 else 0) \<Longrightarrow>
              units r = u \<Longrightarrow> entry_date r = Date first_buy \<Longrightarrow>
              unrealized_pnl r = (current_price r - entry_price r) * units r \<Longrightarrow>
              R code r"
  shows "R k r"
proof -
  from run obtain pc where
    pa: "process_all pd (Map.empty, None) stock_transactions = Inr (perf, pc)"
    unfolding calculate_performance_from_entries_def
    by (cases "process_all pd (Map.empty, None) stock_transactions") auto
  define I where "I = (\<lambda>st :: loop_state. \<forall>k r. fst st k = Some r \<longrightarrow> R k r)"
  have "I (perf, pc)"
  proof (rule process_all_invariant [OF pa])
    show "I (Map.empty, None)" by (simp add: I_def)
  next
    fix s item s'
    assume i: "I s" and mem: "item \<in> set stock_transactions"
      and ps: "process_stock pd s item = Inr s'"
    obtain a b where s: "s = (a, b)" by (cases s)
    obtain a' b' where s': "s' = (a', b')" by (cases s')
    obtain code info where item: "item = (code, info)" by (cases item)
    from i have 1: "\<forall>k r. a k = Some r \<longrightarrow> R k r"
      unfolding I_def s by simp
    have "\<forall>k r. a' k = Some r \<longrightarrow> R k r"
    proof (rule process_stock_record [OF ps [unfolded s s' item] 1])
      fix column first_buy other_buys c u and r :: performance_record
      assume "pd code = Some column" "dropna column \<noteq> []"
        "filter (\<lambda>t. Type t = ''Buy'') (all_transactions info) = first_buy # other_buys"
        "replay (0, 0) (sort_values (all_transactions info)) = Inr (c, u)"
        "entry_price r = (if u > 0 then c / u else 0)"
        "current_price r = snd (last (dropna column))"
        "pct_change r =
                (if entry_price r > 0
                 then (current_price r - entry_price r) / entry_price r * 100 else 0)"
        "units r = u" "entry_date r = Date first_buy"
        "unrealized_pnl r = (current_price r - entry_price r) * units r"
      with mem [unfolded item] show "R code r" by (rule R)
    qed
    then show "I s'" unfolding I_def s' by simp
  qed
  with look show ?thesis unfolding I_def by simp
qed



lemmas run_defs = calculate_performance_from_entries_def process_stock_def build_record_def
      Buy_def Sell_def sort_values_def
      py_div_def clamp_return_def weighted_avg_cost_of_def current_pct_change_of_def Let_def

lemma spike_run:
  "calculate_performance_from_entries [(''0001'', spike_info)] spike_prices =
   Inr [''0001'' \<mapsto> spike_record]"
  by (simp add: run_defs spike_info_def spike_prices_def spike_record_def)

lemma scenario_A_run:
  "calculate_performance_from_entries [(''0001'', scenario_A_info)] scenario_A_prices =
   Inr [''0001'' \<mapsto> scenario_A_record]"
  by (simp add: calculate_performance_from_entries_def process_stock_def build_record_def
      scenario_A_info_def scenario_A_prices_def scenario_A_record_def Buy_def sort_values_def
      py_div_def clamp_return_def weighted_avg_cost_of_def current_pct_change_of_def Let_def)

text \<open>
  The division of line 224 is by the average cost itself. A position with units but no
  cost (a Buy whose price cell did not convert and was read as 0.0) makes it raise.
\<close>

lemma zero_cost_position_raises:
  "calculate_performance_from_entries
     [(''0001'', \<lparr>buy_transactions = [Buy 1 100 0], sell_transactions = [],
                    all_transactions = [Buy 1 100 0], current_units = 100, total_cost = 0\<rparr>)]
     [''0001'' \<mapsto> [(1, Some 5)]] = Inl ZeroDivisionError"
  by (simp add: run_defs)

section \<open>Claims about the trajectory\<close>

text \<open>
  C3. Every record of the mapping that the reconstructor returns has a non-empty
  trajectory whose first point has the return 0.0. This also covers a record that was
  built from the trajectory of an earlier instrument (see C10): that trajectory had its
  first point forced to 0.0 when it was made.
\<close>

theorem trajectory_starts_at_zero:
  assumes "calculate_performance_from_entries stock_transactions price_data = Inr performance_data"
    and "performance_data stock_code = Some record"
  shows "historical_pct record \<noteq> [] \<and> snd (hd (historical_pct record)) = 0"
proof (rule calculate_performance_series
         [OF assms, where Q = "\<lambda>t. t \<noteq> [] \<and> snd (hd t) = 0"])
  fix all_tx :: "transaction list" and prices ps :: "(date \<times> real) list"
  assume "ps \<noteq> []"
  then show "force_first_zero ps \<noteq> [] \<and> snd (hd (force_first_zero ps)) = 0"
    using force_first_zero_nonempty force_first_zero_hd by blast
qed

theorem trajectory_starts_at_zero_witness:
  "historical_pct scenario_A_record \<noteq> [] \<and> snd (hd (historical_pct scenario_A_record)) = 0"
proof -
  have "[''0001'' \<mapsto> scenario_A_record] ''0001'' = Some scenario_A_record" by simp
  from trajectory_starts_at_zero [OF scenario_A_run this] show ?thesis .
qed



section \<open>Claims about the record\<close>

text \<open>
  C5. For every record of the returned mapping: the current price is the last point of
  the instrument's price series (all dates, NaN cells dropped), the entry price is the
  weighted average cost of the final replay (cost / units when units > 0, else 0), and the
  current percentage change is (price - cost) / cost * 100 when that cost is > 0 and 0
  otherwise. The value is not capped: some input gives a change above 1000.
\<close>

theorem current_figures:
  assumes "calculate_performance_from_entries stock_transactions price_data = Inr performance_data"
    and "performance_data stock_code = Some record"
  shows "(\<exists>column info c u.
            price_data stock_code = Some column \<and> dropna column \<noteq> [] \<and>
            current_price record = snd (last (dropna column)) \<and>
            (stock_code, info) \<in> set stock_transactions \<and>
            replay (0, 0) (sort_values (all_transactions info)) = Inr (c, u) \<and>
            entry_price record = (if u > 0 then c / u else 0)) \<and>
         pct_change record =
           (if entry_price record > 0
            then (current_price record - entry_price record) / entry_price record * 100
            else 0) \<and>
         (\<exists>st pd perf r. calculate_performance_from_entries st pd = Inr perf \<and>
            perf ''0001'' = Some r \<and> 1000 < pct_change r)"
proof -
  have "(\<exists>column info c u.
            price_data stock_code = Some column \<and> dropna column \<noteq> [] \<and>
            current_price record = snd (last (dropna column)) \<and>
            (stock_code, info) \<in> set stock_transactions \<and>
            replay (0, 0) (sort_values (all_transactions info)) = Inr (c, u) \<and>
            entry_price record = (if u > 0 then c / u else 0)) \<and>
         pct_change record =
           (if entry_price record > 0
            then (current_price record - entry_price record) / entry_price record * 100
            else 0)"
    by (rule calculate_performance_record [OF assms]) blast
  moreover have "\<exists>st pd perf r. calculate_performance_from_entries st pd = Inr perf \<and>
            perf ''0001'' = Some r \<and> 1000 < pct_change r"
  proof (intro exI conjI)
    show "calculate_performance_from_entries [(''0001'', spike_info)] spike_prices =
          Inr [''0001'' \<mapsto> spike_record]" by (rule spike_run)
    show "[''0001'' \<mapsto> spike_record] ''0001'' = Some spike_record" by simp
    show "1000 < pct_change spike_record" by (simp add: spike_record_def)
  qed
  ultimately show ?thesis by blast
qed

theorem current_figures_witness:
  "current_price spike_record = 20 \<and> pct_change spike_record = (20 - 1) / 1 * 100 \<and>
   \<not> pct_change spike_record \<le> 1000"
proof -
  have "[''0001'' \<mapsto> spike_record] ''0001'' = Some spike_record" by simp
  from current_figures [OF spike_run this]
  show ?thesis by (simp add: spike_record_def)
qed

section \<open>Claims about the entry date\<close>

text \<open>
  C7. The spec takes the entry date to be the earliest Buy date, for every order of the
  rows. Line 187 takes the date of the first Buy row of the frame as the loader built it,
  without sorting. On the rows Buy (day 5), Buy (day 2) the record has entry date 5 and its
  trajectory starts on day 5, while the earliest Buy date is 2.
\<close>

theorem entry_date_follows_row_order:
  "calculate_performance_from_entries [(''0001'', unordered_info)] unordered_prices =
     Inr [''0001'' \<mapsto> unordered_record] \<and>
   entry_date unordered_record = 5 \<and>
   Min (Date ` set (filter (\<lambda>t. Type t = ''Buy'') (all_transactions unordered_info))) = 2"
  by (simp add: run_defs unordered_info_def unordered_prices_def unordered_record_def)

section \<open>Claims about the whole run\<close>



section \<open>The trajectory carried between instruments\<close>

lemma trajectory_loop_never_held:
  assumes "\<forall>dp \<in> set prices. \<forall>c u.
             replay (0, 0) (sort_values (filter (\<lambda>t. Date t \<le> fst dp) all_tx)) = Inr (c, u)
             \<longrightarrow> u \<le> 0"
  shows "trajectory_loop all_tx [] prices = Inr []"
  using assms
proof (induction prices)
  case Nil
  show ?case by simp
next
  case (Cons dp prices)
  obtain d p where dp: "dp = (d, p)" by (cases dp)
  obtain c u where r: "replay (0, 0) (sort_values (filter (\<lambda>t. Date t \<le> d) all_tx)) = Inr (c, u)"
    using replay_total [of "(0, 0)" "sort_values (filter (\<lambda>t. Date t \<le> d) all_tx)"]
    by (cases "replay (0, 0) (sort_values (filter (\<lambda>t. Date t \<le> d) all_tx))") auto
  have u: "u \<le> 0" using Cons.prems r dp by simp
  have "trajectory_loop all_tx [] ((d, p) # prices) = trajectory_loop all_tx [] prices"
    using trajectory_loop_no_position [OF r u, of "[]" p prices] by simp
  moreover have "trajectory_loop all_tx [] prices = Inr []"
    using Cons.prems by (intro Cons.IH) simp
  ultimately show ?case unfolding dp by simp
qed

lemma build_record_no_points:
  "build_record (perf, None) code all_tx stock_prices fd [] = Inl NameError"
  "\<exists>r. build_record (perf, Some series) code all_tx stock_prices fd [] =
         Inr (perf(code \<mapsto> r), Some series) \<and>
       historical_pct r = series \<and> dates r = map fst series"
proof -
  obtain c u where r: "replay (0, 0) (sort_values all_tx) = Inr (c, u)"
    using replay_total [of "(0, 0)" "sort_values all_tx"]
    by (cases "replay (0, 0) (sort_values all_tx)") auto
  define w where "w = (if u > 0 then c / u else 0)"
  have wa: "weighted_avg_cost_of (c, u) = Inr w"
    by (simp add: weighted_avg_cost_of_def py_div_def w_def)
  have p: "current_pct_change_of (snd (last stock_prices)) w =
           Inr (if w > 0 then (snd (last stock_prices) - w) / w * 100 else 0)"
    by (simp add: current_pct_change_of_def py_div_def)
  show "build_record (perf, None) code all_tx stock_prices fd [] = Inl NameError"
    unfolding build_record_def Let_def by (simp add: r wa p)
  have "\<exists>st'. build_record (perf, Some series) code all_tx stock_prices fd [] = Inr st'"
    unfolding build_record_def Let_def by (simp add: r wa p)
  then obtain st' where
    st': "build_record (perf, Some series) code all_tx stock_prices fd [] = Inr st'" ..
  from build_record_fields [OF st'] obtain series' r' where
    "(if ([] :: (date \<times> real) list) \<noteq> [] then Some (force_first_zero []) else Some series)
       = Some series'"
    and "st' = (perf(code \<mapsto> r'), Some series')"
    and "historical_pct r' = series'" and "dates r' = map fst series'"
    by blast
  then have "st' = (perf(code \<mapsto> r'), Some series) \<and> historical_pct r' = series \<and>
             dates r' = map fst series"
    by simp
  with st' show "\<exists>r. build_record (perf, Some series) code all_tx stock_prices fd [] =
         Inr (perf(code \<mapsto> r), Some series) \<and>
       historical_pct r = series \<and> dates r = map fst series"
    by blast
qed

text \<open>
  A run over scenario A followed by the idle instrument: the record of the idle instrument
  holds the trajectory of scenario A.
\<close>

lemma stale_run:
  "calculate_performance_from_entries [(''0001'', scenario_A_info), (''0002'', idle_info)]
     (scenario_A_prices(''0002'' \<mapsto> idle_prices)) =
   Inr [''0001'' \<mapsto> scenario_A_record, ''0002'' \<mapsto> idle_record]"
  by (simp add: run_defs scenario_A_info_def scenario_A_prices_def scenario_A_record_def
      idle_info_def idle_prices_def idle_record_def)

text \<open>
  C10. When the price series from the entry date on is non-empty but the replayed units are
  not positive on any of its dates, no point is appended and \<^verbatim>\<open>pct_changes\<close> is not
  assigned. The instrument is not skipped: its record is built with the trajectory left in
  \<^verbatim>\<open>pct_changes\<close> by an earlier instrument, and when no earlier instrument has
  assigned it the read raises NameError, so that the whole call raises and returns no
  mapping.
\<close>

theorem stale_trajectory_or_name_error:
  assumes "price_data stock_code = Some column"
    and "filter (\<lambda>t. Type t = ''Buy'') (all_transactions info) = first_buy # other_buys"
    and "filter (\<lambda>(d, p). d \<ge> Date first_buy) (dropna column) \<noteq> []"
    and "\<forall>dp \<in> set (filter (\<lambda>(d, p). d \<ge> Date first_buy) (dropna column)). \<forall>c u.
           replay (0, 0) (sort_values (filter (\<lambda>t. Date t \<le> fst dp) (all_transactions info)))
             = Inr (c, u) \<longrightarrow> u \<le> 0"
  shows "(\<exists>r. process_stock price_data (performance_data, Some series) (stock_code, info) =
               Inr (performance_data(stock_code \<mapsto> r), Some series) \<and>
             historical_pct r = series \<and> dates r = map fst series) \<and>
         process_stock price_data (performance_data, None) (stock_code, info) = Inl NameError \<and>
         calculate_performance_from_entries ((stock_code, info) # items) price_data =
           Inl NameError"
proof -
  have tl: "trajectory_loop (all_transactions info) []
              (filter (\<lambda>(d, p). d \<ge> Date first_buy) (dropna column)) = Inr []"
    by (rule trajectory_loop_never_held [OF assms(4)])
  have ne: "dropna column \<noteq> []" using assms(3) by auto
  have tx: "all_transactions info \<noteq> []" using assms(2) by auto
  have ps: "\<And>st. process_stock price_data st (stock_code, info) =
              build_record st stock_code (all_transactions info) (dropna column)
                (Date first_buy) []"
    unfolding process_stock_def Let_def using assms(1,2,3) tl ne tx by simp
  have a: "\<exists>r. process_stock price_data (performance_data, Some series) (stock_code, info) =
               Inr (performance_data(stock_code \<mapsto> r), Some series) \<and>
             historical_pct r = series \<and> dates r = map fst series"
    unfolding ps by (rule build_record_no_points(2))
  have b: "\<And>perf. process_stock price_data (perf, None) (stock_code, info) = Inl NameError"
    unfolding ps by (rule build_record_no_points(1))
  have c: "calculate_performance_from_entries ((stock_code, info) # items) price_data =
           Inl NameError"
    unfolding calculate_performance_from_entries_def by (simp add: b)
  from a b c show ?thesis by blast
qed

theorem stale_trajectory_or_name_error_witness:
  "(\<exists>r. process_stock [''0002'' \<mapsto> idle_prices] (Map.empty, Some [(1, 0), (2, 10)])
           (''0002'', idle_info) = Inr ([''0002'' \<mapsto> r], Some [(1, 0), (2, 10)]) \<and>
        historical_pct r = [(1, 0), (2, 10)] \<and> dates r = map fst [(1 :: date, 0 :: real), (2, 10)]) \<and>
   process_stock [''0002'' \<mapsto> idle_prices] (Map.empty, None) (''0002'', idle_info) =
     Inl NameError \<and>
   calculate_performance_from_entries ((''0002'', idle_info) # [(''0001'', scenario_A_info)])
     [''0002'' \<mapsto> idle_prices] = Inl NameError"
proof -
  have h1: "[''0002'' \<mapsto> idle_prices] ''0002'' = Some idle_prices" by simp
  have h2: "filter (\<lambda>t. Type t = ''Buy'') (all_transactions idle_info) =
            Buy 1 0 10 # [Buy 10 100 10]"
    by (simp add: idle_info_def Buy_def)
  have h3: "filter (\<lambda>(d, p). d \<ge> Date (Buy 1 0 10)) (dropna idle_prices) \<noteq> []"
    by (simp add: idle_prices_def Buy_def)
  have h4: "\<forall>dp \<in> set (filter (\<lambda>(d, p). d \<ge> Date (Buy 1 0 10)) (dropna idle_prices)). \<forall>c u.
           replay (0, 0) (sort_values (filter (\<lambda>t. Date t \<le> fst dp) (all_transactions idle_info)))
             = Inr (c, u) \<longrightarrow> u \<le> 0"
    by (simp add: idle_prices_def idle_info_def Buy_def sort_values_def)
  from stale_trajectory_or_name_error
         [where price_data = "[''0002'' \<mapsto> idle_prices]" and stock_code = "''0002''"
            and column = idle_prices and info = idle_info and first_buy = "Buy 1 0 10"
            and other_buys = "[Buy 10 100 10]" and performance_data = Map.empty
            and series = "[(1, 0), (2, 10)]" and items = "[(''0001'', scenario_A_info)]",
          OF h1 h2 h3 h4]
  show ?thesis .
qed

section \<open>Properties of the loaders\<close>











section \<open>Claims about the loaders\<close>




end
